theory Spec2Isabelle
  imports Main
begin

section \<open>Medicine alternative resolver\<close>

text \<open>
  The controller \<^verbatim>\<open>medicineController.js\<close> answers
  \<^verbatim>\<open>GET /medicines/:id/alternatives\<close> from three collections: medicines,
  pharmacy listings (\<^verbatim>\<open>PharmacyMedicine\<close>) and pharmacies. A collection is the list
  of its documents in the order in which a query returns them. Prices, stocks and discounts
  are numbers that the handler only compares with zero or copies.
\<close>

record medicine =
  med_id :: nat
  med_alternatives :: "nat list"
  med_activeIngredient :: nat
  med_isDeleted :: bool
  med_isAvailable :: bool

record pharmacy =
  ph_id :: nat
  ph_name :: string

record pharmacyMedicine =
  pm_medicineId :: nat
  pm_pharmacyId :: nat
  pm_price :: int
  pm_stock :: int
  pm_discount :: int
  pm_isAvailable :: bool
  pm_isDeleted :: bool

record pharmacyInfo =
  pharmacyId :: nat
  pharmacyName :: string
  price :: int
  stock :: int
  discount :: int
  isAvailable :: bool

record catalog =
  medicines :: "medicine list"
  pharmacyMedicines :: "pharmacyMedicine list"
  pharmacies :: "pharmacy list"

text \<open>
  What a handler sends: \<^verbatim>\<open>res.json(body)\<close> or \<^verbatim>\<open>res.status(201).json(body)\<close> on the
  success path, and the three error replies of the controller. The 400 reply of
  \<^verbatim>\<open>markReminderAsTaken\<close> echoes the two fields it received.
\<close>

datatype ('a, 'r) reply =
    Json nat 'a
  | Bad_Request 'r
  | Not_Found
  | Server_Error

fun http_status :: "('a, 'r) reply \<Rightarrow> nat" where
  "http_status (Json code body) = code"
| "http_status (Bad_Request received) = 400"
| "http_status Not_Found = 404"
| "http_status Server_Error = 500"

text \<open>A JavaScript exception, which the surrounding \<^verbatim>\<open>try\<close> catches.\<close>

datatype js_error = TypeError | RangeError

text \<open>\<^verbatim>\<open>Medicine.findById(id)\<close>.\<close>

definition findById :: "catalog \<Rightarrow> nat \<Rightarrow> medicine option" where
  "findById c i = find (\<lambda>m. med_id m = i) (medicines c)"

text \<open>
  The body of the \<^verbatim>\<open>map\<close> callback that both branches share: the first available,
  non-deleted listing of the medicine with positive stock, with its pharmacy populated.
  Without such a listing the callback returns \<^verbatim>\<open>null\<close> (here \<open>None\<close>). When the
  listing names a pharmacy that does not exist, \<^verbatim>\<open>populate\<close> leaves \<^verbatim>\<open>null\<close> in
  \<^verbatim>\<open>pharmacyId\<close> and reading \<^verbatim>\<open>pharmacyId._id\<close> throws.
\<close>

definition withPharmacyInfo ::
    "catalog \<Rightarrow> medicine \<Rightarrow> js_error + (medicine \<times> pharmacyInfo) option" where
  "withPharmacyInfo c alt =
     (case find (\<lambda>pm. pm_medicineId pm = med_id alt \<and> pm_isAvailable pm
                        \<and> \<not> pm_isDeleted pm \<and> 0 < pm_stock pm) (pharmacyMedicines c) of
        None \<Rightarrow> Inr None
      | Some pm \<Rightarrow>
          (case find (\<lambda>p. ph_id p = pm_pharmacyId pm) (pharmacies c) of
             None \<Rightarrow> Inl TypeError
           | Some p \<Rightarrow>
               Inr (Some (alt, \<lparr>pharmacyId = ph_id p, pharmacyName = ph_name p,
                                price = pm_price pm, stock = pm_stock pm,
                                discount = pm_discount pm,
                                isAvailable = pm_isAvailable pm\<rparr>))))"

text \<open>\<^verbatim>\<open>Promise.all\<close>: the list of results, or the first rejection.\<close>

fun promise_all :: "('e + 'a) list \<Rightarrow> 'e + 'a list" where
  "promise_all [] = Inr []"
| "promise_all (Inl e # ps) = Inl e"
| "promise_all (Inr x # ps) = (case promise_all ps of Inl e \<Rightarrow> Inl e | Inr xs \<Rightarrow> Inr (x # xs))"

text \<open>\<^verbatim>\<open>.filter(alt => alt !== null)\<close>.\<close>

definition non_null :: "'a option list \<Rightarrow> 'a list" where
  "non_null xs = List.map_filter (\<lambda>x. x) xs"

text \<open>
  \<^verbatim>\<open>findAlternativesByActiveIngredient\<close>: the other non-deleted, available medicines with
  the same active ingredient, each joined with a pharmacy listing. Its own \<^verbatim>\<open>catch\<close>
  turns any exception into the empty list.
\<close>

definition findAlternativesByActiveIngredient ::
    "catalog \<Rightarrow> medicine \<Rightarrow> (medicine \<times> pharmacyInfo) list" where
  "findAlternativesByActiveIngredient c medicine =
     (let alternatives =
            filter (\<lambda>m. med_id m \<noteq> med_id medicine
                         \<and> med_activeIngredient m = med_activeIngredient medicine
                         \<and> \<not> med_isDeleted m \<and> med_isAvailable m) (medicines c)
      in case promise_all (map (withPharmacyInfo c) alternatives) of
           Inl e \<Rightarrow> []
         | Inr alternativesWithPharmacyInfo \<Rightarrow> non_null alternativesWithPharmacyInfo)"

text \<open>
  The curated branch of \<^verbatim>\<open>getMedicineAlternatives\<close>: \<^verbatim>\<open>populate('alternatives')\<close>
  replaces each referenced id by its document and drops the ids without one; every
  populated medicine is joined with a pharmacy listing and the \<^verbatim>\<open>null\<close>s are filtered
  out.
\<close>

definition curatedAlternatives ::
    "catalog \<Rightarrow> medicine \<Rightarrow> js_error + (medicine \<times> pharmacyInfo) list" where
  "curatedAlternatives c medicine =
     (if med_alternatives medicine \<noteq> [] then
        (let populated = List.map_filter (findById c) (med_alternatives medicine)
         in case promise_all (map (withPharmacyInfo c) populated) of
              Inl e \<Rightarrow> Inl e
            | Inr alternativesWithPharmacyInfo \<Rightarrow> Inr (non_null alternativesWithPharmacyInfo))
      else Inr [])"

record alternatives_body =
  alternatives :: "(medicine \<times> pharmacyInfo) list"
  source :: string

definition getMedicineAlternatives ::
    "catalog \<Rightarrow> nat \<Rightarrow> (alternatives_body, unit) reply" where
  "getMedicineAlternatives c i =
     (case findById c i of
        None \<Rightarrow> Not_Found
      | Some medicine \<Rightarrow>
          if med_isDeleted medicine then Not_Found
          else
            (case curatedAlternatives c medicine of
               Inl e \<Rightarrow> Server_Error
             | Inr curated \<Rightarrow>
                 (let alts = (if curated = [] then findAlternativesByActiveIngredient c medicine
                              else curated)
                  in Json 200
                       \<lparr>alternatives = alts,
                        source = (if alts \<noteq> [] then
                                    (if med_alternatives medicine \<noteq> [] then ''predefined''
                                     else ''activeIngredient'')
                                  else ''none'')\<rparr>)))"


section \<open>Dates\<close>

text \<open>
  A JavaScript \<^verbatim>\<open>Date\<close> is its time value: the milliseconds since the epoch, an
  integer. \<open>iso_day t\<close> is the calendar day that \<^verbatim>\<open>toISOString().split('T')[0]\<close>
  prints for \<open>t\<close>, as the number of that day counted from 1970-01-01 (two time values
  print the same text exactly when they have the same day number).
\<close>

definition day_ms :: int where
  "day_ms = 86400000"

definition iso_day :: "int \<Rightarrow> int" where
  "iso_day t = t div day_ms"

text \<open>
  The date a client sends in a route or a body, as the handlers see it. \<open>Day d\<close> is
  the text \<^verbatim>\<open>YYYY-MM-DD\<close> of day number \<open>d\<close>, the form in which
  \<^verbatim>\<open>toISOString\<close> prints a day and in which the client's \<^verbatim>\<open>reminderAPI\<close> documents
  its date parameters; \<open>Other s\<close> is a text \<open>s\<close> that is not a date, for
  which \<^verbatim>\<open>new Date(s + 'T00:00:00.000Z')\<close> is an invalid date (its
  \<^verbatim>\<open>toISOString()\<close> throws a RangeError) and which no printed day equals.
\<close>

datatype date_text = Day int | Other string

text \<open>\<^verbatim>\<open>new Date(date + 'T00:00:00.000Z')\<close> and \<^verbatim>\<open>new Date(date + 'T23:59:59.999Z')\<close>.\<close>

fun utc_midnight :: "date_text \<Rightarrow> js_error + int" where
  "utc_midnight (Day d) = Inr (d * day_ms)"
| "utc_midnight (Other s) = Inl RangeError"


text \<open>\<^verbatim>\<open>new Date(t).toISOString().split('T')[0] === date\<close>.\<close>

fun iso_is :: "int \<Rightarrow> date_text \<Rightarrow> bool" where
  "iso_is t (Day d) = (iso_day t = d)"
| "iso_is t (Other s) = False"

text \<open>
  \<^verbatim>\<open>startOfDay\<close>, \<^verbatim>\<open>endOfDay\<close> and \<^verbatim>\<open>addDays\<close> of date-fns and the
  \<^verbatim>\<open>getHours\<close>, \<^verbatim>\<open>getMinutes\<close> and \<^verbatim>\<open>setHours\<close> of \<^verbatim>\<open>Date\<close> work in the
  server's local time. The zone is a parameter \<open>tz\<close>: local time is UTC plus \<open>tz\<close>
  milliseconds, the same all year (a zone without daylight-saving changes).
\<close>

definition local_day :: "int \<Rightarrow> int \<Rightarrow> int" where
  "local_day tz t = (t + tz) div day_ms"

definition startOfDay :: "int \<Rightarrow> int \<Rightarrow> int" where
  "startOfDay tz t = t - (t + tz) mod day_ms"

definition endOfDay :: "int \<Rightarrow> int \<Rightarrow> int" where
  "endOfDay tz t = startOfDay tz t + (day_ms - 1)"

definition addDays :: "int \<Rightarrow> int \<Rightarrow> int" where
  "addDays t n = t + n * day_ms"

definition getHours :: "int \<Rightarrow> int \<Rightarrow> int" where
  "getHours tz t = ((t + tz) mod day_ms) div 3600000"

definition getMinutes :: "int \<Rightarrow> int \<Rightarrow> int" where
  "getMinutes tz t = ((t + tz) mod 3600000) div 60000"

text \<open>\<^verbatim>\<open>d.setHours(h, m, 0, 0)\<close>, as the time value of the changed date.\<close>

definition setHours :: "int \<Rightarrow> int \<Rightarrow> int \<Rightarrow> int \<Rightarrow> int" where
  "setHours tz t h m = startOfDay tz t + h * 3600000 + m * 60000"

section \<open>Reminders\<close>

text \<open>
  The \<^verbatim>\<open>Reminder\<close> documents with the fields the controller reads and writes. Text
  fields that a request may leave out are optional. A new document has
  \<^verbatim>\<open>isDeleted\<close> and \<^verbatim>\<open>isTaken\<close> false and no \<^verbatim>\<open>deletedAt\<close>: the handlers
  never set them on creation, and every query filters on \<^verbatim>\<open>isDeleted: false\<close>.
  Every handler of the controller also filters on the user, so the reminders without a
  user that \<^verbatim>\<open>uploadPrescription\<close> saves are never read or written here; the
  collection of the model holds the reminders that have a user.
\<close>

record dailyStatus =
  ds_date :: int
  ds_status :: string
  ds_isTaken :: bool

record reminder =
  user :: nat
  medicineId :: "nat option"
  product' :: "string option"
  title :: "string option"
  description :: "string option"
  time :: int
  frequency :: "string option"
  startDate :: int
  endDate :: int
  dosage :: "string option"
  notes' :: "string option"
  notificationPreferences :: "string option"
  status :: string
  isTaken :: bool
  isDeleted :: bool
  deletedAt :: "int option"
  dailyStatuses :: "dailyStatus list"

text \<open>
  The database: the reminders collection and, for every user document, its
  \<^verbatim>\<open>reminders\<close> array of ids. The \<^verbatim>\<open>_id\<close> of a reminder is its position in the
  collection: no handler removes a document (deletion only sets a flag), so a position
  names one document for ever, as an ObjectId does, and a new document gets the next
  free position. Database operations are taken to succeed, \<^verbatim>\<open>save\<close> with its
  validation included; the catch-all 500 replies for a failing database are outside the
  model. The ids in requests are well-formed.
\<close>

record database =
  reminders :: "reminder list"
  users :: "nat \<Rightarrow> nat list option"

text \<open>\<^verbatim>\<open>Reminder.findOne({ _id: i, user: uid, isDeleted: false })\<close>.\<close>

definition findOne :: "database \<Rightarrow> nat \<Rightarrow> nat \<Rightarrow> reminder option" where
  "findOne db i uid =
     (if i < length (reminders db) \<and> user (reminders db ! i) = uid
         \<and> \<not> isDeleted (reminders db ! i)
      then Some (reminders db ! i) else None)"

text \<open>\<^verbatim>\<open>reminder.save()\<close> of the document read from position \<open>i\<close>.\<close>

definition save :: "database \<Rightarrow> nat \<Rightarrow> reminder \<Rightarrow> database" where
  "save db i r = db\<lparr>reminders := (reminders db)[i := r]\<rparr>"


text \<open>
  \<^verbatim>\<open>User.findByIdAndUpdate(uid, { $push: { reminders: { $each: ids } } })\<close> and
  \<^verbatim>\<open>User.findByIdAndUpdate(uid, { $pull: { reminders: i } })\<close>; without a user document
  of that id nothing changes.
\<close>

definition push_each :: "(nat \<Rightarrow> nat list option) \<Rightarrow> nat \<Rightarrow> nat list \<Rightarrow> (nat \<Rightarrow> nat list option)" where
  "push_each us uid ids = (case us uid of None \<Rightarrow> us | Some l \<Rightarrow> us(uid \<mapsto> l @ ids))"


subsection \<open>createReminder\<close>

record reminder_request =
  rq_product :: "string option"
  rq_title :: "string option"
  rq_description :: "string option"
  rq_medicineId :: "nat option"
  rq_time :: int
  rq_frequency :: "string option"
  rq_startDate :: int
  rq_endDate :: int
  rq_dosage :: "string option"
  rq_notes :: "string option"
  rq_notificationPreferences :: "string option"

text \<open>The document that one turn of the loop constructs for \<open>currentDate\<close>.\<close>

definition newReminder :: "int \<Rightarrow> nat \<Rightarrow> reminder_request \<Rightarrow> int \<Rightarrow> int \<Rightarrow> reminder" where
  "newReminder tz uid b currentDate endDateTime =
     (let reminderTime = setHours tz currentDate (getHours tz (rq_time b)) (getMinutes tz (rq_time b))
      in \<lparr>user = uid, medicineId = rq_medicineId b, product' = rq_product b,
          title = rq_title b, description = rq_description b, time = reminderTime,
          frequency = rq_frequency b, startDate = currentDate, endDate = endDateTime,
          dosage = rq_dosage b, notes' = rq_notes b,
          notificationPreferences = rq_notificationPreferences b,
          status = ''active'', isTaken = False, isDeleted = False, deletedAt = None,
          dailyStatuses = [\<lparr>ds_date = currentDate, ds_status = ''active'', ds_isTaken = False\<rparr>]\<rparr>)"

text \<open>
  The loop \<^verbatim>\<open>while (currentDate <= endDateTime)\<close>; \<open>acc\<close> is the array
  \<^verbatim>\<open>reminders\<close>, to which each turn pushes the document it has saved.
\<close>

function generate ::
    "int \<Rightarrow> nat \<Rightarrow> reminder_request \<Rightarrow> int \<Rightarrow> int \<Rightarrow> reminder list \<Rightarrow> reminder list" where
  "generate tz uid b currentDate endDateTime acc =
     (if currentDate \<le> endDateTime then
        generate tz uid b (addDays currentDate 1) endDateTime
          (acc @ [newReminder tz uid b currentDate endDateTime])
      else acc)"
  by pat_completeness auto
termination
  by (relation "measure (\<lambda>(tz, uid, b, currentDate, endDateTime, acc).
                           nat (endDateTime - currentDate + 1))")
     (auto simp: addDays_def day_ms_def)

declare generate.simps [simp del]

text \<open>
  The handler: the saved documents are appended to the collection in the order of the
  loop, their ids are pushed to the user's array, and the reply is 201 with the array.
\<close>

definition createReminder ::
    "int \<Rightarrow> nat \<Rightarrow> reminder_request \<Rightarrow> database
       \<Rightarrow> ((nat \<times> reminder) list, unit) reply \<times> database" where
  "createReminder tz uid b db =
     (let created = generate tz uid b (startOfDay tz (rq_startDate b))
                      (endOfDay tz (rq_endDate b)) [];
          ids = [length (reminders db) ..< length (reminders db) + length created]
      in (Json 201 (zip ids created),
          db\<lparr>reminders := reminders db @ created,
             users := push_each (users db) uid ids\<rparr>))"

subsection \<open>getUserReminders, getReminder, updateReminder, deleteReminder\<close>









subsection \<open>getRemindersByDate\<close>

text \<open>The entry that both handlers create for a date without one.\<close>

definition newStatus :: "int \<Rightarrow> dailyStatus" where
  "newStatus d = \<lparr>ds_date = d, ds_status = ''active'', ds_isTaken = False\<rparr>"

text \<open>
  \<^verbatim>\<open>reminder.dailyStatuses.find(status => new Date(status.date).toISOString().split('T')[0] === date)\<close>:
  the first entry whose printed day is the text \<open>date\<close>.
\<close>

definition dailyStatusOn :: "date_text \<Rightarrow> reminder \<Rightarrow> dailyStatus option" where
  "dailyStatusOn date r = find (\<lambda>st. iso_is (ds_date st) date) (dailyStatuses r)"




subsection \<open>markReminderAsTaken\<close>

record mark_body =
  mb_date :: "date_text option"
  mb_status :: "string option"

text \<open>
  The two assignments \<^verbatim>\<open>dailyStatus.status = status\<close> and
  \<^verbatim>\<open>dailyStatus.isTaken = status === 'completed'\<close>.
\<close>

definition setStatus :: "string \<Rightarrow> dailyStatus \<Rightarrow> dailyStatus" where
  "setStatus s e = e\<lparr>ds_status := s, ds_isTaken := (s = ''completed'')\<rparr>"

text \<open>
  When \<^verbatim>\<open>find\<close> returns an entry, the assignments change that entry of the array: the
  first one whose printed day is \<open>date\<close>.
\<close>

fun markFound :: "date_text \<Rightarrow> string \<Rightarrow> dailyStatus list \<Rightarrow> dailyStatus list" where
  "markFound date s [] = []"
| "markFound date s (e # es) =
     (if iso_is (ds_date e) date then setStatus s e # es else e # markFound date s es)"

text \<open>
  The array after the search, the push and the two assignments, and the object that the
  variable \<^verbatim>\<open>dailyStatus\<close> holds then. When no entry is found the handler builds a plain object, pushes it and
  assigns to the plain object afterwards. Whether the pushed element sees these
  assignments is decided by the declaration of \<^verbatim>\<open>dailyStatuses\<close> in the schema
  \<^verbatim>\<open>models/Reminder.js\<close>, which the controller imports and does not contain, so it
  is the parameter \<open>push_casts\<close>. On an array of subdocuments the \<^verbatim>\<open>push\<close> of
  Mongoose stores a subdocument that it constructs from the plain object (\<open>True\<close>: the
  element keeps the values it had when pushed, and the assignments reach only the local
  object); otherwise the array holds the object itself (\<open>False\<close>).
\<close>

definition markDaily ::
    "bool \<Rightarrow> date_text \<Rightarrow> int \<Rightarrow> string \<Rightarrow> reminder \<Rightarrow> dailyStatus list \<times> dailyStatus" where
  "markDaily push_casts date targetDate s reminder =
     (case dailyStatusOn date reminder of
        Some dailyStatus \<Rightarrow> (markFound date s (dailyStatuses reminder), setStatus s dailyStatus)
      | None \<Rightarrow>
          (dailyStatuses reminder
             @ [if push_casts then newStatus targetDate else setStatus s (newStatus targetDate)],
           setStatus s (newStatus targetDate)))"

text \<open>
  The handler. \<^verbatim>\<open>!date || !status\<close> holds for a field that is absent and for the empty
  text. \<open>now\<close> is the time value of \<^verbatim>\<open>new Date()\<close>. The reply to a successful request
  is the saved document with \<^verbatim>\<open>currentStatus\<close> set to the variable \<^verbatim>\<open>dailyStatus\<close>.
\<close>

definition markReminderAsTaken ::
    "bool \<Rightarrow> int \<Rightarrow> nat \<Rightarrow> nat \<Rightarrow> mark_body \<Rightarrow> database
       \<Rightarrow> (reminder \<times> dailyStatus, mark_body) reply \<times> database" where
  "markReminderAsTaken push_casts now uid i body db =
     (case mb_date body of
        None \<Rightarrow> (Bad_Request body, db)
      | Some date \<Rightarrow>
          (case mb_status body of
             None \<Rightarrow> (Bad_Request body, db)
           | Some s \<Rightarrow>
               if date = Other [] \<or> s = [] then (Bad_Request body, db)
               else
                 (case findOne db i uid of
                    None \<Rightarrow> (Not_Found, db)
                  | Some reminder \<Rightarrow>
                      (case utc_midnight date of
                         Inl e \<Rightarrow> (Server_Error, db)
                       | Inr targetDate \<Rightarrow>
                           (let (statuses, dailyStatus) =
                                  markDaily push_casts date targetDate s reminder;
                                marked = reminder\<lparr>dailyStatuses := statuses\<rparr>;
                                today = iso_day now * day_ms;
                                saved = (if iso_day targetDate = iso_day today
                                         then marked\<lparr>status := s,
                                                     isTaken := (s = ''completed'')\<rparr>
                                         else marked)
                            in (Json 200 (saved, dailyStatus), save db i saved))))))"

section \<open>The invariant of the daily statuses\<close>


section \<open>Counting the days of a request\<close>

text \<open>
  The number of calendar days, in the server's zone, from the day of the request's start
  date to the day of its end date, both included; zero when the end is on an earlier day.
\<close>

definition days_spanned :: "int \<Rightarrow> reminder_request \<Rightarrow> nat" where
  "days_spanned tz b = nat (local_day tz (rq_endDate b) - local_day tz (rq_startDate b) + 1)"

text \<open>How often the loop of \<open>generate\<close> runs from \<open>currentDate\<close>.\<close>

definition turns :: "int \<Rightarrow> int \<Rightarrow> nat" where
  "turns currentDate endDateTime = nat ((endDateTime - currentDate) div day_ms + 1)"

section \<open>Notions used to state the properties\<close>


text \<open>
  A field of the body of a mark-taken request is missing when the handler's test
  \<^verbatim>\<open>!date || !status\<close> rejects it: it is absent or the empty text. The handler's own
  log message calls this case \<^verbatim>\<open>Missing required fields\<close>.
\<close>

definition missing :: "mark_body \<Rightarrow> bool" where
  "missing body =
     (mb_date body = None \<or> mb_date body = Some (Other [])
      \<or> mb_status body = None \<or> mb_status body = Some [])"






section \<open>Example data\<close>

text \<open>
  A catalog in which medicine 1 has the curated alternative 2, whose only listing is out of
  stock, while medicine 3 shares the active ingredient of medicine 1 and is in stock.
\<close>

definition aspirin :: medicine where
  "aspirin = \<lparr>med_id = 1, med_alternatives = [2], med_activeIngredient = 7,
              med_isDeleted = False, med_isAvailable = True\<rparr>"

definition curated_substitute :: medicine where
  "curated_substitute = \<lparr>med_id = 2, med_alternatives = [], med_activeIngredient = 8,
                         med_isDeleted = False, med_isAvailable = True\<rparr>"

definition same_ingredient :: medicine where
  "same_ingredient = \<lparr>med_id = 3, med_alternatives = [], med_activeIngredient = 7,
                      med_isDeleted = False, med_isAvailable = True\<rparr>"

definition central_offer :: pharmacyInfo where
  "central_offer = \<lparr>pharmacyId = 1, pharmacyName = ''Central'', price = 55, stock = 12,
                    discount = 5, isAvailable = True\<rparr>"

definition demo_catalog :: catalog where
  "demo_catalog =
     \<lparr>medicines = [aspirin, curated_substitute, same_ingredient],
      pharmacyMedicines =
        [\<lparr>pm_medicineId = 2, pm_pharmacyId = 1, pm_price = 40, pm_stock = 0,
          pm_discount = 0, pm_isAvailable = True, pm_isDeleted = False\<rparr>,
         \<lparr>pm_medicineId = 3, pm_pharmacyId = 1, pm_price = 55, pm_stock = 12,
          pm_discount = 5, pm_isAvailable = True, pm_isDeleted = False\<rparr>],
      pharmacies = [\<lparr>ph_id = 1, ph_name = ''Central''\<rparr>]\<rparr>"

text \<open>
  A second catalog: medicine 10 names the curated alternatives 11 (no listing at all) and 99
  (no such medicine); medicine 12 has the same active ingredient and an offer.
\<close>

definition ibuprofen :: medicine where
  "ibuprofen = \<lparr>med_id = 10, med_alternatives = [11, 99], med_activeIngredient = 4,
                med_isDeleted = False, med_isAvailable = True\<rparr>"

definition unlisted :: medicine where
  "unlisted = \<lparr>med_id = 11, med_alternatives = [], med_activeIngredient = 5,
               med_isDeleted = False, med_isAvailable = True\<rparr>"

definition generic :: medicine where
  "generic = \<lparr>med_id = 12, med_alternatives = [], med_activeIngredient = 4,
              med_isDeleted = False, med_isAvailable = True\<rparr>"

definition corner_offer :: pharmacyInfo where
  "corner_offer = \<lparr>pharmacyId = 3, pharmacyName = ''Corner'', price = 20, stock = 1,
                   discount = 0, isAvailable = True\<rparr>"

definition second_catalog :: catalog where
  "second_catalog =
     \<lparr>medicines = [ibuprofen, unlisted, generic],
      pharmacyMedicines =
        [\<lparr>pm_medicineId = 12, pm_pharmacyId = 3, pm_price = 20, pm_stock = 1,
          pm_discount = 0, pm_isAvailable = True, pm_isDeleted = False\<rparr>],
      pharmacies = [\<lparr>ph_id = 3, ph_name = ''Corner''\<rparr>]\<rparr>"

text \<open>
  Requests and a database for the reminder handlers. Day 19727 is 2024-01-05, whose
  midnight in UTC is the time value 1704412800000; \<open>course\<close> runs from that day to the
  next, daily at 08:00 UTC, and \<open>reversed_course\<close> ends the day before it starts.
\<close>

definition course :: reminder_request where
  "course = \<lparr>rq_product = None, rq_title = Some ''Aspirin'', rq_description = None,
             rq_medicineId = Some 1, rq_time = 1704441600000, rq_frequency = Some ''daily'',
             rq_startDate = 1704412800000, rq_endDate = 1704499200000,
             rq_dosage = Some ''1'', rq_notes = None, rq_notificationPreferences = None\<rparr>"


definition one_user :: database where
  "one_user = \<lparr>reminders = [], users = (\<lambda>u. None)(1 := Some [])\<rparr>"

text \<open>
  The two reminders that \<open>createReminder\<close> makes of \<open>course\<close> for user 1 on a server in
  UTC, and the database that holds them.
\<close>

definition first_dose :: reminder where
  "first_dose =
     \<lparr>user = 1, medicineId = Some 1, product' = None, title = Some ''Aspirin'',
      description = None, time = 1704441600000, frequency = Some ''daily'',
      startDate = 1704412800000, endDate = 1704585599999, dosage = Some ''1'',
      notes' = None, notificationPreferences = None, status = ''active'', isTaken = False,
      isDeleted = False, deletedAt = None,
      dailyStatuses = [\<lparr>ds_date = 1704412800000, ds_status = ''active'', ds_isTaken = False\<rparr>]\<rparr>"

definition second_dose :: reminder where
  "second_dose =
     first_dose\<lparr>time := 1704528000000, startDate := 1704499200000,
       dailyStatuses := [\<lparr>ds_date = 1704499200000, ds_status = ''active'',
                          ds_isTaken = False\<rparr>]\<rparr>"

definition two_doses :: database where
  "two_doses = \<lparr>reminders = [first_dose, second_dose], users = (\<lambda>u. None)(1 := Some [0, 1])\<rparr>"

text \<open>
  Mark-taken requests: for 2024-01-06 (day 19728), for 2024-01-05 (day 19727), and two
  with a missing field. The instant \<open>noon_jan_6\<close> is 12:00 UTC on 2024-01-06.
\<close>

definition taken_jan_6 :: mark_body where
  "taken_jan_6 = \<lparr>mb_date = Some (Day 19728), mb_status = Some ''completed''\<rparr>"

definition missed_jan_5 :: mark_body where
  "missed_jan_5 = \<lparr>mb_date = Some (Day 19727), mb_status = Some ''missed''\<rparr>"

definition no_status :: mark_body where
  "no_status = \<lparr>mb_date = Some (Day 19728), mb_status = None\<rparr>"

definition noon_jan_6 :: int where
  "noon_jan_6 = 1704542400000"

text \<open>
  A request that starts at 10:20 UTC on 2024-01-05 and ends at the midnight with which that
  day began: its start is after its end, on the same day.
\<close>

definition same_day_course :: reminder_request where
  "same_day_course = course\<lparr>rq_startDate := 1704450000000, rq_endDate := 1704412800000\<rparr>"

section \<open>Auxiliary facts about lists\<close>

lemma find_Some_mem: "find P xs = Some x \<Longrightarrow> x \<in> set xs \<and> P x"
  by (induction xs) (auto split: if_splits)

section \<open>Theorems: alternative resolution\<close>

lemma promise_all_nulls:
  "\<forall>x \<in> set xs. f x = Inr None \<Longrightarrow> promise_all (map f xs) = Inr (map (\<lambda>_. None) xs)"
  by (induction xs) auto

lemma non_null_nulls: "non_null (map (\<lambda>_. None) xs) = []"
  by (induction xs) (auto simp: non_null_def List.map_filter_simps)

lemma curated_all_dropped:
  assumes "\<forall>a \<in> set (List.map_filter (findById c) (med_alternatives m)).
             withPharmacyInfo c a = Inr None"
  shows "curatedAlternatives c m = Inr []"
  using assms by (auto simp: curatedAlternatives_def Let_def promise_all_nulls non_null_nulls)

text \<open>
  The callback returns \<^verbatim>\<open>null\<close> exactly for a medicine with no available, non-deleted
  listing in stock.
\<close>

lemma withPharmacyInfo_null_iff:
  "withPharmacyInfo c a = Inr None \<longleftrightarrow>
     \<not> (\<exists>pm \<in> set (pharmacyMedicines c).
           pm_medicineId pm = med_id a \<and> pm_isAvailable pm \<and> \<not> pm_isDeleted pm
           \<and> 0 < pm_stock pm)"
  by (auto simp: withPharmacyInfo_def find_None_iff split: option.splits dest!: find_Some_mem)


lemmas demo_defs =
  demo_catalog_def aspirin_def curated_substitute_def same_ingredient_def central_offer_def
  second_catalog_def ibuprofen_def unlisted_def generic_def corner_offer_def
  getMedicineAlternatives_def findById_def curatedAlternatives_def withPharmacyInfo_def
  findAlternativesByActiveIngredient_def non_null_def List.map_filter_simps Let_def

text \<open>
  Claim C1, as amended. When the curated list of a medicine is not empty and the
  availability filter drops every curated alternative, \<open>getMedicineAlternatives\<close> does fall
  back: the alternatives of its reply are those of \<open>findAlternativesByActiveIngredient\<close>,
  and the source is \<open>none\<close> exactly when that search finds nothing as well.
\<close>

theorem getMedicineAlternatives_curated_all_dropped:
  assumes "findById c i = Some m" and "\<not> med_isDeleted m" and "med_alternatives m \<noteq> []"
    and "\<forall>a \<in> set (List.map_filter (findById c) (med_alternatives m)).
           withPharmacyInfo c a = Inr None"
  shows "\<exists>src. getMedicineAlternatives c i =
                 Json 200 \<lparr>alternatives = findAlternativesByActiveIngredient c m, source = src\<rparr>
               \<and> (src = ''none'' \<longleftrightarrow> findAlternativesByActiveIngredient c m = [])"
  using assms(1-3) curated_all_dropped[OF assms(4)]
  by (simp add: getMedicineAlternatives_def Let_def)

theorem getMedicineAlternatives_curated_all_dropped_witness:
  "findById demo_catalog 1 = Some aspirin \<and> \<not> med_isDeleted aspirin
   \<and> med_alternatives aspirin \<noteq> []
   \<and> List.map_filter (findById demo_catalog) (med_alternatives aspirin) = [curated_substitute]
   \<and> withPharmacyInfo demo_catalog curated_substitute = Inr None
   \<and> (\<exists>src. getMedicineAlternatives demo_catalog 1 =
               Json 200 \<lparr>alternatives = findAlternativesByActiveIngredient demo_catalog aspirin,
                         source = src\<rparr>
             \<and> (src = ''none'' \<longleftrightarrow> findAlternativesByActiveIngredient demo_catalog aspirin = []))"
proof -
  have 1: "findById demo_catalog 1 = Some aspirin"
    by (simp add: demo_catalog_def aspirin_def findById_def)
  have 2: "\<not> med_isDeleted aspirin" and 3: "med_alternatives aspirin \<noteq> []"
    by (simp_all add: aspirin_def)
  have curated: "List.map_filter (findById demo_catalog) (med_alternatives aspirin)
                   = [curated_substitute]"
    by (simp add: demo_catalog_def aspirin_def curated_substitute_def same_ingredient_def
          findById_def List.map_filter_simps)
  have dropped: "withPharmacyInfo demo_catalog curated_substitute = Inr None"
    by (simp add: demo_catalog_def curated_substitute_def withPharmacyInfo_def)
  have 4: "\<forall>a \<in> set (List.map_filter (findById demo_catalog) (med_alternatives aspirin)).
             withPharmacyInfo demo_catalog a = Inr None"
    by (simp add: curated dropped)
  show ?thesis
    using getMedicineAlternatives_curated_all_dropped[OF 1 2 3 4] 1 2 3 curated dropped
    by blast
qed

text \<open>
  Claim C1 as stated fails: in \<open>demo_catalog\<close> the curated list of medicine 1 is not empty
  and its only entry has no listing in stock, yet the reply carries the medicine found by
  the active ingredient, and its source is not \<open>none\<close>.
\<close>

theorem getMedicineAlternatives_curated_all_dropped_counterexample:
  "findById demo_catalog 1 = Some aspirin
   \<and> List.map_filter (findById demo_catalog) (med_alternatives aspirin) = [curated_substitute]
   \<and> withPharmacyInfo demo_catalog curated_substitute = Inr None
   \<and> getMedicineAlternatives demo_catalog 1 =
       Json 200 \<lparr>alternatives = [(same_ingredient, central_offer)], source = ''predefined''\<rparr>"
  by (simp add: demo_defs)

text \<open>
  Claim C3 at a failing input. In \<open>second_catalog\<close> the curated branch of medicine 10
  yields nothing, the alternatives of the reply are the result of the active-ingredient
  search, and the reply tags them \<open>predefined\<close>.
\<close>

theorem getMedicineAlternatives_fallback_tagged_predefined:
  "curatedAlternatives second_catalog ibuprofen = Inr []
   \<and> findAlternativesByActiveIngredient second_catalog ibuprofen = [(generic, corner_offer)]
   \<and> getMedicineAlternatives second_catalog 10 =
       Json 200 \<lparr>alternatives = [(generic, corner_offer)], source = ''predefined''\<rparr>"
  by (simp add: demo_defs)

text \<open>What the tag of a successful reply is, in terms of the request's medicine.\<close>

lemma getMedicineAlternatives_source:
  assumes "getMedicineAlternatives c i = Json code body" and "findById c i = Some m"
  shows "source body =
           (if alternatives body = [] then ''none''
            else if med_alternatives m \<noteq> [] then ''predefined'' else ''activeIngredient'')"
  using assms
  by (auto simp: getMedicineAlternatives_def Let_def split: if_splits sum.splits)

section \<open>Theorems: createReminder\<close>

lemma startOfDay_local_day: "startOfDay tz t = local_day tz t * day_ms - tz"
proof -
  have "(t + tz) - (t + tz) mod day_ms = (t + tz) div day_ms * day_ms"
    by (rule minus_mod_eq_div_mult)
  then show ?thesis by (simp add: startOfDay_def local_day_def)
qed

lemma endOfDay_local_day: "endOfDay tz t = local_day tz t * day_ms - tz + (day_ms - 1)"
  by (simp add: endOfDay_def startOfDay_local_day)

lemma day_ms_pos: "0 < day_ms"
  by (simp add: day_ms_def)

lemma turns_step:
  assumes "currentDate \<le> endDateTime"
  shows "turns currentDate endDateTime = Suc (turns (addDays currentDate 1) endDateTime)"
proof -
  have "(endDateTime - currentDate) div day_ms
          = ((endDateTime - (currentDate + day_ms)) + day_ms) div day_ms"
    by simp
  also have "\<dots> = (endDateTime - (currentDate + day_ms)) div day_ms + 1"
    using day_ms_pos by (subst div_add_self2) simp_all
  finally have "(endDateTime - (currentDate + day_ms)) div day_ms
                  = (endDateTime - currentDate) div day_ms - 1"
    by simp
  moreover have "0 \<le> (endDateTime - currentDate) div day_ms"
    using assms day_ms_pos by (simp add: pos_imp_zdiv_nonneg_iff)
  ultimately show ?thesis by (simp add: turns_def addDays_def)
qed

lemma turns_none: "endDateTime < currentDate \<Longrightarrow> turns currentDate endDateTime = 0"
proof -
  assume "endDateTime < currentDate"
  then have "(endDateTime - currentDate) div day_ms < 0"
    using day_ms_pos by (simp add: div_neg_pos_less0)
  then show ?thesis by (simp add: turns_def)
qed

lemma generate_eq:
  "generate tz uid b currentDate endDateTime acc =
     acc @ map (\<lambda>k. newReminder tz uid b (currentDate + int k * day_ms) endDateTime)
             [0..<turns currentDate endDateTime]"
proof (induction tz uid b currentDate endDateTime acc rule: generate.induct)
  case (1 tz uid b currentDate endDateTime acc)
  show ?case
  proof (cases "currentDate \<le> endDateTime")
    case True
    have "map (\<lambda>k. newReminder tz uid b (currentDate + int k * day_ms) endDateTime)
            [0..<Suc (turns (addDays currentDate 1) endDateTime)]
          = newReminder tz uid b currentDate endDateTime
            # map (\<lambda>k. newReminder tz uid b (addDays currentDate 1 + int k * day_ms) endDateTime)
                [0..<turns (addDays currentDate 1) endDateTime]"
      by (simp add: map_upt_Suc addDays_def algebra_simps del: upt_Suc)
    with True "1.IH" turns_step[OF True] show ?thesis
      by (subst generate.simps) simp
  next
    case False
    then show ?thesis by (subst generate.simps) (simp add: turns_none)
  qed
qed

lemma last_ms_div: "(day_ms - 1) div day_ms = 0"
  by (simp add: day_ms_def)

lemma last_ms_plus_days: "((day_ms - 1) + k * day_ms) div day_ms = k"
proof -
  have "day_ms \<noteq> 0" using day_ms_pos by simp
  then have "((day_ms - 1) + k * day_ms) div day_ms = k + (day_ms - 1) div day_ms"
    by (rule div_mult_self1)
  then show ?thesis by (simp add: last_ms_div)
qed

lemma turns_request:
  "turns (startOfDay tz s) (endOfDay tz e) = nat (local_day tz e - local_day tz s + 1)"
proof -
  have "endOfDay tz e - startOfDay tz s
          = (day_ms - 1) + (local_day tz e - local_day tz s) * day_ms"
    by (simp add: startOfDay_local_day endOfDay_local_day algebra_simps)
  moreover have "((day_ms - 1) + (local_day tz e - local_day tz s) * day_ms) div day_ms
                   = local_day tz e - local_day tz s"
    by (rule last_ms_plus_days)
  ultimately show ?thesis by (simp add: turns_def)
qed




lemma createReminder_eq:
  "createReminder tz uid b db =
     (let created = map (\<lambda>k. newReminder tz uid b
                               (startOfDay tz (rq_startDate b) + int k * day_ms)
                               (endOfDay tz (rq_endDate b)))
                      [0..<days_spanned tz b];
          ids = [length (reminders db) ..< length (reminders db) + days_spanned tz b]
      in (Json 201 (zip ids created),
          db\<lparr>reminders := reminders db @ created,
             users := push_each (users db) uid ids\<rparr>))"
  unfolding createReminder_def generate_eq turns_request days_spanned_def
  by simp










text \<open>The example database is what the handler makes of the example request.\<close>

lemma createReminder_course:
  "createReminder 0 1 course one_user = (Json 201 [(0, first_dose), (1, second_dose)], two_doses)"
  by (simp add: createReminder_eq days_spanned_def local_day_def day_ms_def course_def one_user_def
        Let_def newReminder_def endOfDay_def startOfDay_def upt_conv_Cons push_each_def
        first_dose_def second_dose_def two_doses_def setHours_def getHours_def getMinutes_def)

text \<open>
  A start that is later than the end, but on the same day: the loop runs once, for that day.
\<close>

lemma createReminder_same_day:
  "rq_endDate same_day_course < rq_startDate same_day_course
   \<and> local_day 0 (rq_endDate same_day_course) = local_day 0 (rq_startDate same_day_course)
   \<and> days_spanned 0 same_day_course = 1
   \<and> length (reminders (snd (createReminder 0 1 same_day_course one_user))) = 1"
  by (simp add: createReminder_eq days_spanned_def local_day_def day_ms_def same_day_course_def
        course_def one_user_def Let_def)

section \<open>Theorems: getRemindersByDate\<close>

lemma iso_day_midnight: "iso_day (d * day_ms) = d"
  using day_ms_pos by (simp add: iso_day_def)

lemma find_append_None: "find P xs = None \<Longrightarrow> find P (xs @ ys) = find P ys"
  by (induction xs) (auto split: if_splits)














section \<open>Theorems: markReminderAsTaken\<close>

lemma markReminderAsTaken_success:
  assumes "mb_date body = Some (Day d)" and "mb_status body = Some s" and "s \<noteq> []"
    and "findOne db i uid = Some r"
  shows "markReminderAsTaken pc now uid i body db =
           (let marked = r\<lparr>dailyStatuses := fst (markDaily pc (Day d) (d * day_ms) s r)\<rparr>;
                saved = (if d = iso_day now
                         then marked\<lparr>status := s, isTaken := (s = ''completed'')\<rparr>
                         else marked)
            in (Json 200 (saved, snd (markDaily pc (Day d) (d * day_ms) s r)), save db i saved))"
  using assms
  by (simp add: markReminderAsTaken_def Let_def iso_day_midnight split_beta)


lemma findOne_Some: 
  "findOne db i uid = Some r \<Longrightarrow>
     i < length (reminders db) \<and> reminders db ! i = r \<and> user r = uid \<and> \<not> isDeleted r"
  by (auto simp: findOne_def split: if_splits)


lemma markReminderAsTaken_missing:
  "missing body \<Longrightarrow> markReminderAsTaken pc now uid i body db = (Bad_Request body, db)"
  by (auto simp: markReminderAsTaken_def missing_def split: option.splits)

lemma markReminderAsTaken_not_400:
  "\<not> missing body \<Longrightarrow> http_status (fst (markReminderAsTaken pc now uid i body db)) \<noteq> 400"
  by (auto simp: markReminderAsTaken_def missing_def Let_def split_beta
           split: option.splits sum.splits)

lemma markReminderAsTaken_not_found:
  "\<not> missing body \<Longrightarrow> findOne db i uid = None \<Longrightarrow>
     markReminderAsTaken pc now uid i body db = (Not_Found, db)"
  by (auto simp: markReminderAsTaken_def missing_def split: option.splits)

text \<open>
  Claim C7. \<open>markReminderAsTaken\<close> replies 400 exactly when the date or the status of the
  body is missing, and the reply then echoes the body it received. When both are present and
  there is no reminder with the given id that belongs to the user and is not deleted, the
  reply is 404. In both cases the database stays as it was.
\<close>

theorem markReminderAsTaken_errors:
  "(http_status (fst (markReminderAsTaken push_casts now uid i body db)) = 400 \<longleftrightarrow> missing body)
   \<and> (missing body \<longrightarrow>
        markReminderAsTaken push_casts now uid i body db = (Bad_Request body, db))
   \<and> (\<not> missing body \<and> findOne db i uid = None \<longrightarrow>
        markReminderAsTaken push_casts now uid i body db = (Not_Found, db)
        \<and> http_status (fst (markReminderAsTaken push_casts now uid i body db)) = 404)"
  using markReminderAsTaken_missing[of body push_casts now uid i db]
    markReminderAsTaken_not_400[of body push_casts now uid i db]
    markReminderAsTaken_not_found[of body db i uid push_casts now]
  by auto

theorem markReminderAsTaken_errors_witness:
  "missing no_status
   \<and> markReminderAsTaken True noon_jan_6 1 0 no_status two_doses = (Bad_Request no_status, two_doses)
   \<and> http_status (fst (markReminderAsTaken True noon_jan_6 1 0 no_status two_doses)) = 400
   \<and> \<not> missing taken_jan_6 \<and> findOne two_doses 7 1 = None
   \<and> markReminderAsTaken True noon_jan_6 1 7 taken_jan_6 two_doses = (Not_Found, two_doses)
   \<and> http_status (fst (markReminderAsTaken True noon_jan_6 1 7 taken_jan_6 two_doses)) = 404"
proof -
  have 1: "missing no_status"
    by (simp add: missing_def no_status_def)
  have 2: "\<not> missing taken_jan_6"
    by (simp add: missing_def taken_jan_6_def)
  have 3: "findOne two_doses 7 1 = None"
    by (simp add: findOne_def two_doses_def)
  show ?thesis
    using markReminderAsTaken_errors[of True noon_jan_6 1 0 no_status two_doses]
      markReminderAsTaken_errors[of True noon_jan_6 1 7 taken_jan_6 two_doses] 1 2 3
    by simp
qed

lemma find_markFound:
  "find (\<lambda>st. iso_is (ds_date st) date) es = Some e \<Longrightarrow>
     find (\<lambda>st. iso_is (ds_date st) date) (markFound date s es) = Some (setStatus s e)"
  by (induction es) (auto simp: setStatus_def split: if_splits)

lemma markDaily_None:
  "dailyStatusOn date r = None \<Longrightarrow>
     markDaily pc date t s r =
       (dailyStatuses r @ [if pc then newStatus t else setStatus s (newStatus t)],
        setStatus s (newStatus t))"
  by (simp add: markDaily_def)

lemma markDaily_Some:
  "dailyStatusOn date r = Some e \<Longrightarrow>
     markDaily pc date t s r = (markFound date s (dailyStatuses r), setStatus s e)"
  by (simp add: markDaily_def)

lemma find_pushed:
  assumes "find (\<lambda>st. iso_is (ds_date st) (Day d)) es = None" and "ds_date e = d * day_ms"
  shows "find (\<lambda>st. iso_is (ds_date st) (Day d)) (es @ [e]) = Some e"
  using assms by (simp add: find_append_None iso_day_midnight)

text \<open>
  What a successful request does, for either behaviour of \<open>push\<close>: the reply, the
  top-level fields, and the stored entry of the day.
\<close>

lemma markReminderAsTaken_effect:
  assumes "mb_date body = Some (Day d)" and "mb_status body = Some s" and "s \<noteq> []"
    and "findOne db i uid = Some r"
    and "markReminderAsTaken pc now uid i body db = (rep, db')"
  shows "\<exists>cur. rep = Json 200 (reminders db' ! i, cur)
           \<and> ds_status cur = s \<and> ds_isTaken cur = (s = ''completed'')
           \<and> iso_is (ds_date cur) (Day d)
           \<and> dailyStatusOn (Day d) (reminders db' ! i)
               = Some (if pc \<and> dailyStatusOn (Day d) r = None then newStatus (d * day_ms)
                       else cur)"
    and "d = iso_day now \<Longrightarrow>
           status (reminders db' ! i) = s \<and> isTaken (reminders db' ! i) = (s = ''completed'')"
    and "d \<noteq> iso_day now \<Longrightarrow>
           status (reminders db' ! i) = status r \<and> isTaken (reminders db' ! i) = isTaken r"
proof -
  note f = findOne_Some[OF assms(4)]
  let ?saved = "if d = iso_day now
                then r\<lparr>dailyStatuses := fst (markDaily pc (Day d) (d * day_ms) s r),
                       status := s, isTaken := (s = ''completed'')\<rparr>
                else r\<lparr>dailyStatuses := fst (markDaily pc (Day d) (d * day_ms) s r)\<rparr>"
  from assms(5) have rep: "rep = Json 200 (?saved, snd (markDaily pc (Day d) (d * day_ms) s r))"
    and db': "db' = save db i ?saved"
    by (auto simp: markReminderAsTaken_success[OF assms(1-4)] Let_def)
  have at: "reminders db' ! i = ?saved"
    using f by (simp add: db' save_def)
  show "d = iso_day now \<Longrightarrow>
           status (reminders db' ! i) = s \<and> isTaken (reminders db' ! i) = (s = ''completed'')"
    by (simp add: at)
  show "d \<noteq> iso_day now \<Longrightarrow>
           status (reminders db' ! i) = status r \<and> isTaken (reminders db' ! i) = isTaken r"
    by (simp add: at)
  have entries: "dailyStatuses ?saved = fst (markDaily pc (Day d) (d * day_ms) s r)"
    by simp
  have stored: "dailyStatuses (reminders db' ! i) = fst (markDaily pc (Day d) (d * day_ms) s r)"
    using entries by (simp only: at)
  show "\<exists>cur. rep = Json 200 (reminders db' ! i, cur)
           \<and> ds_status cur = s \<and> ds_isTaken cur = (s = ''completed'')
           \<and> iso_is (ds_date cur) (Day d)
           \<and> dailyStatusOn (Day d) (reminders db' ! i)
               = Some (if pc \<and> dailyStatusOn (Day d) r = None then newStatus (d * day_ms)
                       else cur)"
  proof (cases "dailyStatusOn (Day d) r")
    case None
    let ?pushed = "if pc then newStatus (d * day_ms) else setStatus s (newStatus (d * day_ms))"
    have none: "find (\<lambda>st. iso_is (ds_date st) (Day d)) (dailyStatuses r) = None"
      using None by (simp add: dailyStatusOn_def)
    have "ds_date ?pushed = d * day_ms"
      by (simp add: newStatus_def setStatus_def)
    from find_pushed[OF none this]
    have "find (\<lambda>st. iso_is (ds_date st) (Day d)) (dailyStatuses r @ [?pushed]) = Some ?pushed" .
    moreover have "dailyStatuses (reminders db' ! i) = dailyStatuses r @ [?pushed]"
      using stored by (simp only: markDaily_None[OF None] fst_conv)
    ultimately have "dailyStatusOn (Day d) (reminders db' ! i) = Some ?pushed"
      by (simp only: dailyStatusOn_def)
    then show ?thesis
      using None
      by (simp add: rep at markDaily_None[OF None] setStatus_def newStatus_def iso_day_midnight)
  next
    case (Some e)
    then have found: "find (\<lambda>st. iso_is (ds_date st) (Day d)) (dailyStatuses r) = Some e"
      by (simp add: dailyStatusOn_def)
    from find_Some_mem[OF found] have day: "iso_is (ds_date e) (Day d)" by simp
    have "dailyStatuses (reminders db' ! i) = markFound (Day d) s (dailyStatuses r)"
      using stored by (simp only: markDaily_Some[OF Some] fst_conv)
    with find_markFound[OF found, of s]
    have "dailyStatusOn (Day d) (reminders db' ! i) = Some (setStatus s e)"
      by (simp only: dailyStatusOn_def)
    then show ?thesis
      using Some day by (simp add: rep at markDaily_Some[OF Some] setStatus_def)
  qed
qed

lemmas dose_defs =
  two_doses_def first_dose_def second_dose_def taken_jan_6_def missed_jan_5_def noon_jan_6_def
  markReminderAsTaken_def findOne_def markDaily_def dailyStatusOn_def newStatus_def
  setStatus_def save_def iso_day_def day_ms_def Let_def

text \<open>
  Claim C4 at a failing input, for a \<open>dailyStatuses\<close> array of subdocuments
  (\<open>push_casts\<close> true). Reminder 0 of \<open>two_doses\<close> has no entry for 2024-01-06, and the
  request marks that day, which is the current day, as \<open>completed\<close>. The top-level
  \<open>status\<close> and \<open>isTaken\<close> are set and the reply's \<open>currentStatus\<close> is
  \<open>completed\<close>, but the entry stored for the day is the one that was pushed:
  \<open>active\<close> and not taken.
\<close>

theorem markReminderAsTaken_created_entry_keeps_active:
  "dailyStatusOn (Day 19728) first_dose = None
   \<and> iso_day noon_jan_6 = 19728
   \<and> markReminderAsTaken True noon_jan_6 1 0 taken_jan_6 two_doses =
       (Json 200
          (first_dose\<lparr>status := ''completed'', isTaken := True,
             dailyStatuses :=
               [\<lparr>ds_date = 1704412800000, ds_status = ''active'', ds_isTaken = False\<rparr>,
                \<lparr>ds_date = 1704499200000, ds_status = ''active'', ds_isTaken = False\<rparr>]\<rparr>,
           \<lparr>ds_date = 1704499200000, ds_status = ''completed'', ds_isTaken = True\<rparr>),
        two_doses\<lparr>reminders :=
          [first_dose\<lparr>status := ''completed'', isTaken := True,
             dailyStatuses :=
               [\<lparr>ds_date = 1704412800000, ds_status = ''active'', ds_isTaken = False\<rparr>,
                \<lparr>ds_date = 1704499200000, ds_status = ''active'', ds_isTaken = False\<rparr>]\<rparr>,
           second_dose]\<rparr>)"
  by (simp add: dose_defs)

text \<open>
  Claim C9 at a failing input, again for an array of subdocuments. Reminder 1 of
  \<open>two_doses\<close> has no entry for 2024-01-05, and the request marks that day, which is not
  the current day, as \<open>missed\<close>. The entry created and stored for the day has status
  \<open>active\<close>, not the status of the request; only the reply's \<open>currentStatus\<close> carries
  \<open>missed\<close>.
\<close>

theorem markReminderAsTaken_created_entry_not_missed:
  "dailyStatusOn (Day 19727) second_dose = None
   \<and> iso_day noon_jan_6 \<noteq> 19727
   \<and> markReminderAsTaken True noon_jan_6 1 1 missed_jan_5 two_doses =
       (Json 200
          (second_dose\<lparr>dailyStatuses :=
               [\<lparr>ds_date = 1704499200000, ds_status = ''active'', ds_isTaken = False\<rparr>,
                \<lparr>ds_date = 1704412800000, ds_status = ''active'', ds_isTaken = False\<rparr>]\<rparr>,
           \<lparr>ds_date = 1704412800000, ds_status = ''missed'', ds_isTaken = False\<rparr>),
        two_doses\<lparr>reminders :=
          [first_dose,
           second_dose\<lparr>dailyStatuses :=
               [\<lparr>ds_date = 1704499200000, ds_status = ''active'', ds_isTaken = False\<rparr>,
                \<lparr>ds_date = 1704412800000, ds_status = ''active'', ds_isTaken = False\<rparr>]\<rparr>]\<rparr>)"
  by (simp add: dose_defs)

section \<open>Theorems: one entry for each day\<close>



















section \<open>Theorems: deleteReminder\<close>










end
